theory Spec2Isabelle
  imports Main "HOL-Library.List_Lexorder" "HOL-Library.Char_ord"
begin

section \<open>Data model of \<^verbatim>\<open>stylepipeline.py\<close>\<close>

text \<open>
  Python exceptions that the modelled code can raise. An exception is a value: every
  function that can raise returns \<open>py_error + 'a\<close> or records the error in its state.
\<close>

datatype py_error = TypeError | IndexError | AttributeError | ValueError | KeyError

text \<open>
  \<^verbatim>\<open>torch.device(name)\<close>. Two devices are equal when their names are equal.
\<close>

datatype device = Device string

text \<open>
  A \<^verbatim>\<open>torch.Tensor\<close> as far as the pipeline looks at it: the device it lives on, its
  shape, and its elements (kept abstract: the code never reads them itself).
\<close>

record 'a tensor =
  device :: device
  shape :: "nat list"
  elems :: 'a

text \<open>
  \<^verbatim>\<open>torch.as_tensor(t, device=d)\<close>: the same elements and shape, on device \<open>d\<close>. The
  model tags the tensor with the device asked for (\<^verbatim>\<open>torch\<close> itself reports a tensor placed
  on \<^verbatim>\<open>cuda\<close> as being on \<^verbatim>\<open>cuda:0\<close>).
\<close>

definition as_tensor :: "'a tensor \<Rightarrow> device \<Rightarrow> 'a tensor" where
  "as_tensor t d = t\<lparr>device := d\<rparr>"

text \<open>\<^verbatim>\<open>t.detach()\<close>: the same value, cut off from the autograd graph.\<close>

definition detach :: "'a tensor \<Rightarrow> 'a tensor" where
  "detach t = t"

text \<open>\<^verbatim>\<open>t.unsqueeze(dim)\<close>: a dimension of size one inserted at position \<open>dim\<close>.\<close>

definition unsqueeze :: "nat \<Rightarrow> 'a tensor \<Rightarrow> 'a tensor" where
  "unsqueeze dim t = t\<lparr>shape := take dim (shape t) @ 1 # drop dim (shape t)\<rparr>"

text \<open>\<^verbatim>\<open>t.squeeze()\<close>: every dimension of size one removed.\<close>

definition squeeze :: "'a tensor \<Rightarrow> 'a tensor" where
  "squeeze t = t\<lparr>shape := filter (\<lambda>n. n \<noteq> 1) (shape t)\<rparr>"

text \<open>The dataclass \<^verbatim>\<open>EncodedFrame\<close> and the union \<^verbatim>\<open>EncodedFrameOrTensor\<close>.\<close>

record 'a EncodedFrame =
  e4 :: "'a tensor"
  e5 :: "'a tensor"

datatype 'a EncodedFrameOrTensor = Frame "'a EncodedFrame" | Raw "'a tensor"

text \<open>
  A loaded \<^verbatim>\<open>StyleRunner\<close>: its device and the four stages that \<^verbatim>\<open>load\<close> builds from
  the checkpoints. The stages are \<^verbatim>\<open>nn.Module\<close>s of \<^verbatim>\<open>style_model\<close>, which is not part of
  the sources at hand, so they are parameters of the model.
\<close>

record 'a StyleRunner =
  self_device :: device
  enc_1_to_4 :: "'a tensor \<Rightarrow> 'a tensor"
  enc_5 :: "'a tensor \<Rightarrow> 'a tensor"
  transform :: "'a tensor \<Rightarrow> 'a tensor \<Rightarrow> 'a tensor \<Rightarrow> 'a tensor \<Rightarrow> 'a tensor"
  decoder :: "'a tensor \<Rightarrow> 'a tensor"

text \<open>
  The stage invocations a call makes, in the order it makes them, each with its
  arguments. This is the observable effect of \<^verbatim>\<open>encode_frame\<close> and \<^verbatim>\<open>apply\<close> besides
  their result.
\<close>

datatype 'a call =
  Enc_1_to_4 "'a tensor"
  | Enc_5 "'a tensor"
  | Transform "'a tensor" "'a tensor" "'a tensor" "'a tensor"
  | Decoder "'a tensor"

section \<open>The encode stage and \<^verbatim>\<open>apply\<close>\<close>

text \<open>\<^verbatim>\<open>StyleRunner.encode_frame\<close>: the frame it returns and the stage calls it made.\<close>

fun encode_frame :: "'a StyleRunner \<Rightarrow> 'a EncodedFrameOrTensor \<Rightarrow> 'a EncodedFrame \<times> 'a call list" where
  "encode_frame self (Frame source) =
     (if device (e4 source) = self_device self then (source, [])
      else (\<lparr>e4 = detach (as_tensor (e4 source) (self_device self)),
             e5 = detach (as_tensor (e5 source) (self_device self))\<rparr>, []))"
| "encode_frame self (Raw source) =
     (let source' = detach (as_tensor source (self_device self));
          e4' = detach (enc_1_to_4 self (unsqueeze 0 source'));
          e5' = detach (enc_5 self e4')
      in (\<lparr>e4 = e4', e5 = e5'\<rparr>, [Enc_1_to_4 (unsqueeze 0 source'), Enc_5 e4']))"

text \<open>\<^verbatim>\<open>StyleRunner.apply\<close> (\<open>apply\<close> is a keyword of the proof language, hence the name).\<close>

definition StyleRunner_apply ::
  "'a StyleRunner \<Rightarrow> 'a EncodedFrameOrTensor \<Rightarrow> 'a EncodedFrameOrTensor \<Rightarrow> 'a tensor \<times> 'a call list" where
  "StyleRunner_apply self source style =
     (let (source', calls_source) = encode_frame self source;
          (style', calls_style) = encode_frame self style;
          t = transform self (e4 source') (e4 style') (e5 source') (e5 style')
      in (detach (squeeze (decoder self t)),
          calls_source @ calls_style
            @ [Transform (e4 source') (e4 style') (e5 source') (e5 style'), Decoder t]))"

section \<open>Queue items and the halt test\<close>

text \<open>
  The Python objects that travel through the queues: the class object \<^verbatim>\<open>Halt\<close> itself
  (the sentinel the loops compare with), an instance \<^verbatim>\<open>Halt()\<close>, a job (a dictionary of
  keyword arguments for \<^verbatim>\<open>apply\<close>, as a list of its items; a key is looked up with
  \<open>map_of\<close>), and a result tensor.
\<close>

datatype 'a pyobj =
  Halt
  | HaltInstance
  | Dict "(string \<times> 'a EncodedFrameOrTensor) list"
  | Tensor "'a tensor"

text \<open>
  The test \<^verbatim>\<open>job == Halt\<close>. \<^verbatim>\<open>Halt\<close> defines no \<^verbatim>\<open>__eq__\<close>, so the class object and
  its instances compare by identity; \<^verbatim>\<open>dict.__eq__\<close> and the tensor's \<^verbatim>\<open>__eq__\<close> answer
  \<^verbatim>\<open>NotImplemented\<close> for an operand that is a class, and Python falls back to identity.
\<close>

fun eq_Halt :: "'a pyobj \<Rightarrow> bool" where
  "eq_Halt Halt = True"
| "eq_Halt HaltInstance = False"
| "eq_Halt (Dict kw) = False"
| "eq_Halt (Tensor t) = False"

text \<open>
  The call \<^verbatim>\<open>model_runner.apply(**job)\<close>. Unpacking with \<^verbatim>\<open>**\<close> needs a mapping;
  \<^verbatim>\<open>apply\<close> has exactly the keyword-only parameters \<^verbatim>\<open>source\<close> and \<^verbatim>\<open>style\<close>, so an
  unexpected key and a missing key both raise \<^verbatim>\<open>TypeError\<close> before the body runs.
\<close>

fun call_apply :: "'a StyleRunner \<Rightarrow> 'a pyobj \<Rightarrow> py_error + ('a tensor \<times> 'a call list)" where
  "call_apply model_runner (Dict kw) =
     (if \<not> list_all (\<lambda>k. k = ''source'' \<or> k = ''style'') (map fst kw) then Inl TypeError
      else case (map_of kw ''source'', map_of kw ''style'') of
             (Some source, Some style) \<Rightarrow> Inr (StyleRunner_apply model_runner source style)
           | _ \<Rightarrow> Inl TypeError)"
| "call_apply model_runner Halt = Inl TypeError"
| "call_apply model_runner HaltInstance = Inl TypeError"
| "call_apply model_runner (Tensor t) = Inl TypeError"

section \<open>The loops of \<^verbatim>\<open>round_robin_model_runners\<close>\<close>

text \<open>
  Each loop polls a queue with a timeout and starts over when the poll comes back empty.
  A loop is modelled by its body, a function of the poll's outcome (\<open>None\<close> is
  \<^verbatim>\<open>queue.Empty\<close>, \<open>Some x\<close> the item dequeued) and of the loop's state, and by the
  iteration of the body over the outcomes of its successive polls. A loop that has left
  (\<open>Returned\<close> after \<^verbatim>\<open>break\<close>, \<open>Raised\<close> after an uncaught exception) polls no more.
  The queues are created without a bound, so \<^verbatim>\<open>put\<close> never blocks; a queue a loop writes
  to is represented by the sequence of items put on it.
\<close>

datatype status = Running | Returned | Raised py_error

subsection \<open>The dispatcher \<^verbatim>\<open>push_run\<close>\<close>

record 'a push_state =
  push_idx :: nat
  thread_input_queues :: "'a pyobj list list"
  push_status :: status

definition push_init :: "nat \<Rightarrow> 'a push_state" where
  "push_init W = \<lparr>push_idx = 0, thread_input_queues = replicate W [], push_status = Running\<rparr>"

definition push_iter :: "'a pyobj option \<Rightarrow> 'a push_state \<Rightarrow> 'a push_state" where
  "push_iter got s =
     (case got of
        None \<Rightarrow> s
      | Some job \<Rightarrow>
          if eq_Halt job then s\<lparr>push_status := Returned\<rparr>
          else if push_idx s < length (thread_input_queues s)
          then s\<lparr>thread_input_queues :=
                    (thread_input_queues s)
                      [push_idx s := thread_input_queues s ! push_idx s @ [job]],
                  push_idx := (push_idx s + 1) mod length (thread_input_queues s)\<rparr>
          else s\<lparr>push_status := Raised IndexError\<rparr>)"

fun push_run :: "'a pyobj option list \<Rightarrow> 'a push_state \<Rightarrow> 'a push_state" where
  "push_run [] s = s"
| "push_run (got # gots) s =
     (if push_status s = Running then push_run gots (push_iter got s) else s)"

subsection \<open>The worker \<^verbatim>\<open>model_run\<close>\<close>

record 'a worker_state =
  runner_output :: "'a pyobj list"
  stage_calls :: "'a call list"
  worker_status :: status

definition worker_init :: "'a worker_state" where
  "worker_init = \<lparr>runner_output = [], stage_calls = [], worker_status = Running\<rparr>"

definition model_iter :: "'a StyleRunner \<Rightarrow> 'a pyobj option \<Rightarrow> 'a worker_state \<Rightarrow> 'a worker_state" where
  "model_iter model_runner got s =
     (case got of
        None \<Rightarrow> s
      | Some job \<Rightarrow>
          if eq_Halt job
          then s\<lparr>runner_output := runner_output s @ [Halt], worker_status := Returned\<rparr>
          else (case call_apply model_runner job of
                  Inl e \<Rightarrow> s\<lparr>worker_status := Raised e\<rparr>
                | Inr (result, calls) \<Rightarrow>
                    s\<lparr>runner_output := runner_output s @ [Tensor result],
                      stage_calls := stage_calls s @ calls\<rparr>))"

fun model_run :: "'a StyleRunner \<Rightarrow> 'a pyobj option list \<Rightarrow> 'a worker_state \<Rightarrow> 'a worker_state" where
  "model_run model_runner [] s = s"
| "model_run model_runner (got # gots) s =
     (if worker_status s = Running then model_run model_runner gots (model_iter model_runner got s)
      else s)"

subsection \<open>The collector \<^verbatim>\<open>pull_run\<close>\<close>







section \<open>Start-up: \<^verbatim>\<open>main\<close>\<close>

text \<open>
  What \<^verbatim>\<open>StyleRunner.load\<close> reads from the checkpoint files: the four stages, the same
  for every device. \<^verbatim>\<open>load\<close> makes the runner of a device from them.
\<close>

record 'a style_model =
  make_enc_1_to_4 :: "'a tensor \<Rightarrow> 'a tensor"
  make_enc_5 :: "'a tensor \<Rightarrow> 'a tensor"
  make_transform :: "'a tensor \<Rightarrow> 'a tensor \<Rightarrow> 'a tensor \<Rightarrow> 'a tensor \<Rightarrow> 'a tensor"
  make_decoder :: "'a tensor \<Rightarrow> 'a tensor"

definition load :: "'a style_model \<Rightarrow> device \<Rightarrow> 'a StyleRunner" where
  "load checkpoints d =
     \<lparr>self_device = d,
      enc_1_to_4 = make_enc_1_to_4 checkpoints,
      enc_5 = make_enc_5 checkpoints,
      transform = make_transform checkpoints,
      decoder = make_decoder checkpoints\<rparr>"







section \<open>Round robin, as the specification words it\<close>

text \<open>
  The specification assigns job \<open>i\<close> to worker \<open>i mod W\<close>, in submission order: the share
  of worker \<open>w\<close> is the jobs whose index is \<open>w\<close> modulo \<open>W\<close>, by increasing index.
\<close>

definition round_robin_share :: "nat \<Rightarrow> 'b list \<Rightarrow> nat \<Rightarrow> 'b list" where
  "round_robin_share W jobs w =
     map (\<lambda>i. jobs ! i) (filter (\<lambda>i. i mod W = w) [0..<length jobs])"

section \<open>Example values\<close>

text \<open>
  Concrete tensors, frames, runners and jobs on which the theorems below are instantiated.
  The example stages act on the elements only and differ from each other, so that the
  order of the stage calls and of their arguments shows in a result.
\<close>

definition cpu_tensor :: "nat tensor" where
  "cpu_tensor = \<lparr>device = Device ''cpu'', shape = [3, 1, 2], elems = 7\<rparr>"

definition cuda_tensor :: "nat tensor" where
  "cuda_tensor = \<lparr>device = Device ''cuda:0'', shape = [3, 1, 2], elems = 4\<rparr>"

definition cpu_frame :: "nat EncodedFrame" where
  "cpu_frame = \<lparr>e4 = cpu_tensor, e5 = cpu_tensor\<rparr>"

definition cuda_frame :: "nat EncodedFrame" where
  "cuda_frame = \<lparr>e4 = cuda_tensor, e5 = cuda_tensor\<rparr>"

definition mixed_frame :: "nat EncodedFrame" where
  "mixed_frame = \<lparr>e4 = cpu_tensor, e5 = cuda_tensor\<rparr>"

definition example_transform :: "nat tensor \<Rightarrow> nat tensor \<Rightarrow> nat tensor \<Rightarrow> nat tensor \<Rightarrow> nat tensor" where
  "example_transform a b c d = a\<lparr>elems := elems a + 10 * elems b + 100 * elems c + 1000 * elems d\<rparr>"

definition example_model :: "nat style_model" where
  "example_model =
     \<lparr>make_enc_1_to_4 = (\<lambda>t. t\<lparr>elems := elems t + 1\<rparr>),
      make_enc_5 = (\<lambda>t. t\<lparr>elems := 2 * elems t\<rparr>),
      make_transform = example_transform,
      make_decoder = (\<lambda>t. t\<lparr>elems := elems t + 5\<rparr>)\<rparr>"

definition cpu_runner :: "nat StyleRunner" where
  "cpu_runner = load example_model (Device ''cpu'')"

definition job_a :: "nat pyobj" where
  "job_a = Dict [(''source'', Raw cpu_tensor), (''style'', Frame cpu_frame)]"

definition job_b :: "nat pyobj" where
  "job_b = Dict [(''source'', Frame cuda_frame), (''style'', Raw cuda_tensor)]"

definition job_no_style :: "(string \<times> nat EncodedFrameOrTensor) list" where
  "job_no_style = [(''source'', Raw cpu_tensor)]"


section \<open>Helper lemmas\<close>

lemma push_run_stopped: "push_status s \<noteq> Running \<Longrightarrow> push_run gots s = s"
  by (cases gots) simp_all

lemma push_run_append: "push_run (xs @ ys) s = push_run ys (push_run xs s)"
  by (induction xs arbitrary: s) (simp_all add: push_run_stopped)

lemma model_run_stopped: "worker_status s \<noteq> Running \<Longrightarrow> model_run r gots s = s"
  by (cases gots) simp_all

lemma model_run_append: "model_run r (xs @ ys) s = model_run r ys (model_run r xs s)"
  by (induction xs arbitrary: s) (simp_all add: model_run_stopped)

lemma model_run_empty_polls: "model_run r (replicate n None) s = s"
  by (induction n) (simp_all add: model_iter_def)

lemma round_robin_share_snoc:
  "round_robin_share W (js @ [j]) w =
     (if length js mod W = w then round_robin_share W js w @ [j] else round_robin_share W js w)"
  by (auto simp: round_robin_share_def nth_append cong: map_cong)

lemma div_offset: "x < W \<Longrightarrow> (x + k * W) div W = (k::nat)"
  by simp

lemma div_step:
  fixes n W w :: nat
  assumes "w < W"
  shows "(Suc n + W - Suc w) div W =
         (if n mod W = w then Suc ((n + W - Suc w) div W) else (n + W - Suc w) div W)"
proof -
  define q r where "q = n div W" and "r = n mod W"
  have n: "n = r + q * W" and r: "r < W"
    using assms by (simp_all add: q_def r_def)
  consider "r = w" | "r < w" | "w < r" by linarith
  then show ?thesis
  proof cases
    case 1
    have a: "n + W - Suc w = (W - 1) + q * W" using n 1 assms by simp
    have b: "Suc n + W - Suc w = 0 + Suc q * W" using n 1 assms by simp
    have "(n + W - Suc w) div W = q" unfolding a using assms by (intro div_offset) simp
    moreover have "(Suc n + W - Suc w) div W = Suc q" unfolding b using assms by (intro div_offset) simp
    ultimately show ?thesis using 1 by (simp add: r_def)
  next
    case 2
    have a: "n + W - Suc w = (r + W - Suc w) + q * W" using n 2 assms by simp
    have b: "Suc n + W - Suc w = (Suc r + W - Suc w) + q * W" using n 2 assms by simp
    have "(n + W - Suc w) div W = q" unfolding a using assms 2 by (intro div_offset) simp
    moreover have "(Suc n + W - Suc w) div W = q" unfolding b using assms 2 by (intro div_offset) simp
    ultimately show ?thesis using 2 by (simp add: r_def)
  next
    case 3
    have a: "n + W - Suc w = (r - Suc w) + Suc q * W" using n 3 assms by simp
    have b: "Suc n + W - Suc w = (r - w) + Suc q * W" using n 3 assms by simp
    have "(n + W - Suc w) div W = Suc q" unfolding a using assms 3 r by (intro div_offset) simp
    moreover have "(Suc n + W - Suc w) div W = Suc q" unfolding b using assms 3 r by (intro div_offset) simp
    ultimately show ?thesis using 3 by (simp add: r_def)
  qed
qed

lemma length_round_robin_share:
  "w < W \<Longrightarrow> length (round_robin_share W js w) = (length js + W - Suc w) div W"
proof (induction js rule: rev_induct)
  case Nil
  then show ?case by (simp add: round_robin_share_def)
next
  case (snoc j js)
  then show ?case
    using div_step[of w W "length js"] by (simp add: round_robin_share_snoc)
qed


lemma length_round_robin_share_own:
  assumes "0 < W"
  shows "length (round_robin_share W js (length js mod W)) = length js div W"
proof -
  define q r where "q = length js div W" and "r = length js mod W"
  have n: "length js = r + q * W" and r: "r < W"
    using assms by (simp_all add: q_def r_def)
  have a: "length js + W - Suc r = (W - 1) + q * W"
    using n r by simp
  have "(length js + W - Suc r) div W = q"
    unfolding a using assms by (intro div_offset) simp
  with length_round_robin_share[OF r, of js] show ?thesis
    by (simp add: q_def r_def)
qed

lemma round_robin_share_nth:
  "0 < W \<Longrightarrow> i < length js \<Longrightarrow>
     i div W < length (round_robin_share W js (i mod W))
     \<and> round_robin_share W js (i mod W) ! (i div W) = js ! i"
proof (induction js rule: rev_induct)
  case Nil
  then show ?case by simp
next
  case (snoc j js)
  show ?case
  proof (cases "i < length js")
    case True
    with snoc show ?thesis
      by (simp add: round_robin_share_snoc nth_append)
  next
    case False
    with snoc.prems have i: "i = length js" by simp
    from snoc.prems(1) have "length (round_robin_share W js (i mod W)) = i div W"
      unfolding i by (rule length_round_robin_share_own)
    then show ?thesis
      using i by (simp add: round_robin_share_snoc nth_append)
  qed
qed

lemma round_robin_put:
  assumes "0 < W"
  shows "(map (round_robin_share W js) [0..<W])
           [length js mod W := map (round_robin_share W js) [0..<W] ! (length js mod W) @ [j]]
         = map (round_robin_share W (js @ [j])) [0..<W]"
proof (rule nth_equalityI)
  show "length ((map (round_robin_share W js) [0..<W])
           [length js mod W := map (round_robin_share W js) [0..<W] ! (length js mod W) @ [j]])
        = length (map (round_robin_share W (js @ [j])) [0..<W])"
    by simp
next
  fix i
  assume "i < length ((map (round_robin_share W js) [0..<W])
           [length js mod W := map (round_robin_share W js) [0..<W] ! (length js mod W) @ [j]])"
  then have i: "i < W" by simp
  from assms have k: "length js mod W < W" by simp
  show "(map (round_robin_share W js) [0..<W])
           [length js mod W := map (round_robin_share W js) [0..<W] ! (length js mod W) @ [j]] ! i
        = map (round_robin_share W (js @ [j])) [0..<W] ! i"
    using i k by (simp add: nth_list_update round_robin_share_snoc)
qed

lemma push_run_jobs:
  assumes "0 < W"
  shows "filter (\<lambda>g. g \<noteq> None) gots = map Some jobs \<Longrightarrow> \<forall>j\<in>set jobs. \<not> eq_Halt j \<Longrightarrow>
     push_run gots (push_init W) =
       \<lparr>push_idx = length jobs mod W,
        thread_input_queues = map (round_robin_share W jobs) [0..<W],
        push_status = Running\<rparr>"
proof (induction gots arbitrary: jobs rule: rev_induct)
  case Nil
  then show ?case
    by (simp add: push_init_def round_robin_share_def map_replicate_const)
next
  case (snoc g gots)
  show ?case
  proof (cases g)
    case None
    with snoc show ?thesis
      by (simp add: push_run_append push_iter_def)
  next
    case (Some j)
    with snoc.prems(1) have "filter (\<lambda>g. g \<noteq> None) gots @ [Some j] = map Some jobs"
      by simp
    then obtain js where js: "jobs = js @ [j]" "filter (\<lambda>g. g \<noteq> None) gots = map Some js"
      by (cases jobs rule: rev_cases) auto
    with snoc.prems(2) have nh: "\<not> eq_Halt j" and "\<forall>j\<in>set js. \<not> eq_Halt j"
      by simp_all
    with snoc.IH js have st: "push_run gots (push_init W) =
       \<lparr>push_idx = length js mod W,
        thread_input_queues = map (round_robin_share W js) [0..<W],
        push_status = Running\<rparr>"
      by blast
    from assms have k: "length js mod W < W" by simp
    have "Suc (length js mod W) mod W = Suc (length js) mod W"
      by (simp add: mod_Suc_eq)
    with Some js nh k round_robin_put[OF assms, of js j] show ?thesis
      by (simp add: push_run_append st push_iter_def)
  qed
qed

lemma call_apply_missing:
  "map_of kw ''source'' = None \<or> map_of kw ''style'' = None \<Longrightarrow>
     call_apply r (Dict kw) = Inl TypeError"
  by (auto split: option.splits)






section \<open>The dispatcher\<close>

text \<open>
  Claim C1 says that the dispatcher, on dequeuing the halt sentinel, stops pulling and puts
  one \<^verbatim>\<open>Halt\<close> on every worker's input queue, so that each of the \<open>W\<close> worker output
  queues receives exactly one \<^verbatim>\<open>Halt\<close>. The code of \<^verbatim>\<open>push_run\<close> only leaves its loop: for
  every number of workers, when \<^verbatim>\<open>Halt\<close> is the first item dequeued the dispatcher returns
  with every worker input queue still empty; a worker whose polls all come back empty
  stays as it started, with nothing on its output queue.
\<close>

theorem dispatcher_halt_not_fanned_out:
  "push_run (Some Halt # gots) (push_init W) =
     \<lparr>push_idx = 0, thread_input_queues = replicate W [], push_status = Returned\<rparr>
   \<and> model_run r (replicate n None) worker_init = worker_init
   \<and> runner_output (model_run r (replicate n None) worker_init) = []"
  by (simp add: push_init_def push_iter_def push_run_stopped model_run_empty_polls)
     (simp add: worker_init_def)

text \<open>
  Claim C2: for \<open>W \<ge> 1\<close> workers and jobs submitted before a \<^verbatim>\<open>Halt\<close>, the dispatcher
  forwards job \<open>i\<close> unchanged to the input queue of worker \<open>i mod W\<close>, in submission order.
  Whatever empty polls come between them, when the items dequeued are the jobs \<open>jobs\<close>
  (none of them the sentinel), the input queue of worker \<open>w\<close> holds exactly the jobs whose
  index is \<open>w\<close> modulo \<open>W\<close>, by increasing index, and the rotation index is
  \<open>length jobs mod W\<close>; the \<^verbatim>\<open>Halt\<close> that follows ends the dispatcher and changes no queue,
  and nothing after it is dequeued. So job \<open>i\<close> is the item at position \<open>i div W\<close> of the
  input queue of worker \<open>i mod W\<close>.
\<close>

theorem dispatcher_round_robin:
  assumes "0 < W"
    and "filter (\<lambda>g. g \<noteq> None) gots = map Some jobs"
    and "\<forall>j\<in>set jobs. \<not> eq_Halt j"
  shows "push_run gots (push_init W) =
           \<lparr>push_idx = length jobs mod W,
            thread_input_queues = map (round_robin_share W jobs) [0..<W],
            push_status = Running\<rparr>
         \<and> push_run (gots @ Some Halt # rest) (push_init W) =
           \<lparr>push_idx = length jobs mod W,
            thread_input_queues = map (round_robin_share W jobs) [0..<W],
            push_status = Returned\<rparr>
         \<and> (\<forall>i<length jobs.
               thread_input_queues (push_run (gots @ Some Halt # rest) (push_init W))
                 ! (i mod W) ! (i div W) = jobs ! i)"
proof -
  have run: "push_run gots (push_init W) =
           \<lparr>push_idx = length jobs mod W,
            thread_input_queues = map (round_robin_share W jobs) [0..<W],
            push_status = Running\<rparr>"
    using assms by (rule push_run_jobs)
  then have halt: "push_run (gots @ Some Halt # rest) (push_init W) =
           \<lparr>push_idx = length jobs mod W,
            thread_input_queues = map (round_robin_share W jobs) [0..<W],
            push_status = Returned\<rparr>"
    by (simp add: push_run_append push_iter_def push_run_stopped)
  have "\<forall>i<length jobs.
          map (round_robin_share W jobs) [0..<W] ! (i mod W) ! (i div W) = jobs ! i"
    using assms(1) by (simp add: round_robin_share_nth)
  with run halt show ?thesis
    by simp
qed

theorem dispatcher_round_robin_witness:
  "push_run ([Some job_a, None, Some job_b, None, None, Some HaltInstance] @ Some Halt # [Some job_b])
       (push_init 2) =
     \<lparr>push_idx = 1, thread_input_queues = [[job_a, HaltInstance], [job_b]],
      push_status = Returned\<rparr>"
proof -
  have jobs: "filter (\<lambda>g. g \<noteq> None) [Some job_a, None, Some job_b, None, None, Some HaltInstance]
                = map Some [job_a, job_b, HaltInstance]"
    by simp
  have not_halt: "\<forall>j\<in>set [job_a, job_b, HaltInstance]. \<not> eq_Halt j"
    by (simp add: job_a_def job_b_def)
  have share0: "round_robin_share 2 [job_a, job_b, HaltInstance] 0 = [job_a, HaltInstance]"
    by (simp add: round_robin_share_def upt_rec)
  have share1: "round_robin_share 2 [job_a, job_b, HaltInstance] 1 = [job_b]"
    by (simp add: round_robin_share_def upt_rec)
  have two: "[0..<2] = [0, Suc 0]"
    by (simp add: upt_rec)
  have "(0::nat) < 2" by simp
  from dispatcher_round_robin [OF this jobs not_halt, of "[Some job_b]"]
  show ?thesis
    using share0 share1 by (simp add: two)
qed

section \<open>The worker\<close>

text \<open>
  Claim C6: when a worker dequeues a job that lacks \<^verbatim>\<open>source\<close> or \<^verbatim>\<open>style\<close>, the
  \<^verbatim>\<open>TypeError\<close> of the call of \<^verbatim>\<open>apply\<close> leaves the worker loop uncaught and ends it:
  the worker's state is the one it had when it dequeued the job, its status the raised
  error, and whatever is dequeued afterwards (\<open>after\<close>) has no effect.
\<close>

theorem worker_stops_at_malformed_job:
  assumes "worker_status (model_run r before s) = Running"
    and "map_of kw ''source'' = None \<or> map_of kw ''style'' = None"
  shows "model_run r (before @ Some (Dict kw) # after) s =
           (model_run r before s)\<lparr>worker_status := Raised TypeError\<rparr>"
proof -
  let ?s = "model_run r before s"
  have "model_iter r (Some (Dict kw)) ?s = ?s\<lparr>worker_status := Raised TypeError\<rparr>"
    using assms(2) by (simp add: model_iter_def call_apply_missing del: call_apply.simps)
  then show ?thesis
    using assms(1) by (simp add: model_run_append model_run_stopped)
qed

theorem worker_stops_at_malformed_job_witness:
  "model_run cpu_runner ([Some job_a] @ Some (Dict job_no_style) # [Some job_a, Some Halt]) worker_init =
     (model_run cpu_runner [Some job_a] worker_init)\<lparr>worker_status := Raised TypeError\<rparr>
   \<and> runner_output (model_run cpu_runner [Some job_a] worker_init) =
       [Tensor \<lparr>device = Device ''cpu'', shape = [3, 2], elems = 8683\<rparr>]"
proof -
  have out: "model_run cpu_runner [Some job_a] worker_init =
      \<lparr>runner_output = [Tensor \<lparr>device = Device ''cpu'', shape = [3, 2], elems = 8683\<rparr>],
       stage_calls = snd (StyleRunner_apply cpu_runner (Raw cpu_tensor) (Frame cpu_frame)),
       worker_status = Running\<rparr>"
    by (simp add: job_a_def worker_init_def model_iter_def StyleRunner_apply_def cpu_runner_def
        load_def example_model_def example_transform_def cpu_tensor_def cpu_frame_def
        as_tensor_def detach_def unsqueeze_def squeeze_def Let_def)
  then have running: "worker_status (model_run cpu_runner [Some job_a] worker_init) = Running"
    by simp
  have missing: "map_of job_no_style ''source'' = None \<or> map_of job_no_style ''style'' = None"
    by (simp add: job_no_style_def)
  from worker_stops_at_malformed_job [OF running missing, of "[Some job_a, Some Halt]"]
  show ?thesis
    using out by simp
qed

section \<open>The encode stage\<close>




text \<open>
  Claim C4: for every \<^verbatim>\<open>EncodedFrame\<close> already on the runner's own device (the code reads
  the device off \<^verbatim>\<open>e4\<close>), \<^verbatim>\<open>encode_frame\<close> returns the very frame it was given and
  calls no encoder stage.
\<close>

theorem encode_frame_same_device_unchanged:
  assumes "device (e4 source) = self_device self"
  shows "fst (encode_frame self (Frame source)) = source
         \<and> snd (encode_frame self (Frame source)) = []"
  using assms by simp

theorem encode_frame_same_device_unchanged_witness:
  "device (e4 cpu_frame) = self_device cpu_runner
   \<and> fst (encode_frame cpu_runner (Frame cpu_frame)) = cpu_frame
   \<and> snd (encode_frame cpu_runner (Frame cpu_frame)) = []"
proof -
  have same: "device (e4 cpu_frame) = self_device cpu_runner"
    by (simp add: cpu_frame_def cpu_tensor_def cpu_runner_def load_def)
  from encode_frame_same_device_unchanged [OF same] same
  show ?thesis
    by simp
qed

text \<open>
  Claim C9: the same-device test reads the device of \<^verbatim>\<open>e4\<close> only. For every frame whose
  \<^verbatim>\<open>e4\<close> is on the runner's device, whatever tensor \<open>t5\<close> stands as its \<^verbatim>\<open>e5\<close>, on
  whatever device, \<^verbatim>\<open>encode_frame\<close> returns the frame unchanged and calls no stage; in
  particular an \<^verbatim>\<open>e5\<close> on another device is still on that device in the result.
\<close>

theorem encode_frame_tests_e4_only:
  assumes "device (e4 source) = self_device self"
  shows "encode_frame self (Frame (source\<lparr>e5 := t5\<rparr>)) = (source\<lparr>e5 := t5\<rparr>, [])
         \<and> device (e5 (fst (encode_frame self (Frame (source\<lparr>e5 := t5\<rparr>))))) = device t5"
  using assms by simp

theorem encode_frame_tests_e4_only_witness:
  "device (e4 cpu_frame) = self_device cpu_runner
   \<and> device (e5 mixed_frame) \<noteq> self_device cpu_runner
   \<and> encode_frame cpu_runner (Frame mixed_frame) = (mixed_frame, [])
   \<and> device (e5 (fst (encode_frame cpu_runner (Frame mixed_frame)))) = Device ''cuda:0''"
proof -
  have same: "device (e4 cpu_frame) = self_device cpu_runner"
    by (simp add: cpu_frame_def cpu_tensor_def cpu_runner_def load_def)
  have mixed: "cpu_frame\<lparr>e5 := cuda_tensor\<rparr> = mixed_frame"
    by (simp add: cpu_frame_def mixed_frame_def)
  have other: "device (e5 mixed_frame) \<noteq> self_device cpu_runner"
    by (simp add: mixed_frame_def cuda_tensor_def cpu_runner_def load_def)
  have dev: "device cuda_tensor = Device ''cuda:0''"
    by (simp add: cuda_tensor_def)
  have "encode_frame cpu_runner (Frame mixed_frame) = (mixed_frame, [])
        \<and> device (e5 (fst (encode_frame cpu_runner (Frame mixed_frame)))) = device cuda_tensor"
    using encode_frame_tests_e4_only [OF same, of cuda_tensor] unfolding mixed .
  with same other dev show ?thesis
    by (simp add: mixed_frame_def cuda_tensor_def del: encode_frame.simps)
qed

section \<open>\<^verbatim>\<open>apply\<close>\<close>


section \<open>Start-up\<close>



section \<open>The collector\<close>


section \<open>The halt test\<close>

text \<open>
  Claim C10: the dispatcher and the workers take an item for the halt sentinel exactly when
  it is the class object \<^verbatim>\<open>Halt\<close>: the test \<^verbatim>\<open>job == Halt\<close> holds for it alone, and a
  running dispatcher or worker leaves its loop by \<^verbatim>\<open>break\<close> on it alone; a job dictionary
  never is the sentinel. On \<^verbatim>\<open>Halt\<close> the dispatcher
  returns and the worker puts \<^verbatim>\<open>Halt\<close> on its output queue and returns. An instance
  \<^verbatim>\<open>Halt()\<close> is put by the dispatcher on the worker input queue of the rotation index, as
  any job is, and the worker passes it to the call \<^verbatim>\<open>apply(**job)\<close>, whose \<^verbatim>\<open>TypeError\<close>
  (an instance of \<^verbatim>\<open>Halt\<close> is not a mapping) ends the worker without a \<^verbatim>\<open>Halt\<close> on its
  output queue.
\<close>

theorem halt_is_the_class_object:
  assumes "push_status s = Running"
    and "push_idx s < length (thread_input_queues s)"
    and "worker_status w = Running"
  shows "(eq_Halt job \<longleftrightarrow> job = Halt)
         \<and> (push_status (push_iter (Some job) s) = Returned \<longleftrightarrow> job = Halt)
         \<and> (worker_status (model_iter r (Some job) w) = Returned \<longleftrightarrow> job = Halt)
         \<and> \<not> eq_Halt (Dict kw)
         \<and> push_iter (Some Halt) s = s\<lparr>push_status := Returned\<rparr>
         \<and> model_iter r (Some Halt) w =
             w\<lparr>runner_output := runner_output w @ [Halt], worker_status := Returned\<rparr>
         \<and> push_iter (Some HaltInstance) s =
             s\<lparr>thread_input_queues :=
                 (thread_input_queues s)
                   [push_idx s := thread_input_queues s ! push_idx s @ [HaltInstance]],
               push_idx := (push_idx s + 1) mod length (thread_input_queues s)\<rparr>
         \<and> model_iter r (Some HaltInstance) w =
             (case call_apply r HaltInstance of
                Inl e \<Rightarrow> w\<lparr>worker_status := Raised e\<rparr>
              | Inr (result, calls) \<Rightarrow>
                  w\<lparr>runner_output := runner_output w @ [Tensor result],
                    stage_calls := stage_calls w @ calls\<rparr>)
         \<and> model_iter r (Some HaltInstance) w = w\<lparr>worker_status := Raised TypeError\<rparr>"
proof -
  have test: "eq_Halt job \<longleftrightarrow> job = Halt"
    by (cases job) simp_all
  have dispatcher: "push_status (push_iter (Some job) s) = Returned \<longleftrightarrow> job = Halt"
    using assms(1) by (cases job) (simp_all add: push_iter_def)
  have worker: "worker_status (model_iter r (Some job) w) = Returned \<longleftrightarrow> job = Halt"
    using assms(3)
    by (cases job) (simp_all add: model_iter_def split: sum.splits prod.splits option.splits)
  have rest: "\<not> eq_Halt (Dict kw)
         \<and> push_iter (Some Halt) s = s\<lparr>push_status := Returned\<rparr>
         \<and> model_iter r (Some Halt) w =
             w\<lparr>runner_output := runner_output w @ [Halt], worker_status := Returned\<rparr>
         \<and> push_iter (Some HaltInstance) s =
             s\<lparr>thread_input_queues :=
                 (thread_input_queues s)
                   [push_idx s := thread_input_queues s ! push_idx s @ [HaltInstance]],
               push_idx := (push_idx s + 1) mod length (thread_input_queues s)\<rparr>
         \<and> model_iter r (Some HaltInstance) w =
             (case call_apply r HaltInstance of
                Inl e \<Rightarrow> w\<lparr>worker_status := Raised e\<rparr>
              | Inr (result, calls) \<Rightarrow>
                  w\<lparr>runner_output := runner_output w @ [Tensor result],
                    stage_calls := stage_calls w @ calls\<rparr>)
         \<and> model_iter r (Some HaltInstance) w = w\<lparr>worker_status := Raised TypeError\<rparr>"
    using assms(2) by (simp add: push_iter_def model_iter_def)
  show ?thesis
    by (rule conjI [OF test conjI [OF dispatcher conjI [OF worker rest]]])
qed

theorem halt_is_the_class_object_witness:
  "push_iter (Some HaltInstance) (push_init 2 :: nat push_state) =
     \<lparr>push_idx = 1, thread_input_queues = [[HaltInstance], []], push_status = Running\<rparr>
   \<and> model_iter cpu_runner (Some HaltInstance) worker_init =
     \<lparr>runner_output = [], stage_calls = [], worker_status = Raised TypeError\<rparr>
   \<and> worker_status (model_iter cpu_runner (Some HaltInstance) worker_init) \<noteq> Returned
   \<and> \<not> eq_Halt job_a"
proof -
  have two: "replicate 2 [] = [[], []]"
    by (simp add: numeral_2_eq_2)
  have running: "push_status (push_init 2 :: nat push_state) = Running"
    by (simp add: push_init_def)
  have idx: "push_idx (push_init 2 :: nat push_state)
               < length (thread_input_queues (push_init 2 :: nat push_state))"
    by (simp add: push_init_def)
  have working: "worker_status (worker_init :: nat worker_state) = Running"
    by (simp add: worker_init_def)
  from halt_is_the_class_object [OF running idx working, of HaltInstance cpu_runner
      "[(''source'', Raw cpu_tensor), (''style'', Frame cpu_frame)]"]
  show ?thesis
    by (simp add: push_init_def worker_init_def job_a_def two)
qed

end
